theory Spec2Isabelle
  imports Complex_Main "HOL-Library.Sublist"
begin

section \<open>Boundary data (GeoJSON)\<close>

text \<open>
  The map components of \<^verbatim>\<open>MapComponent.jsx\<close> work on a GeoJSON FeatureCollection.
  A position is the pair \<^verbatim>\<open>[lng, lat]\<close>; JavaScript numbers are idealised as reals.
  A linear ring is an array of positions, a Polygon an array of rings, a MultiPolygon an
  array of Polygons. A feature may carry no geometry at all (\<^verbatim>\<open>if (!geom) return false\<close>)
  or one of another type (a Point, a LineString, ...), of which the model keeps the
  positions.
\<close>

type_synonym point = "real \<times> real"
type_synonym ring = "point list"

datatype geometry =
    Polygon "ring list"
  | MultiPolygon "ring list list"
  | OtherGeometry "point list"

record properties =
  name :: "string option"
  formal_en :: "string option"

record feature =
  geometry :: "geometry option"
  properties :: properties

text \<open>
  Features are objects compared by reference (\<^verbatim>\<open>r.feature === feature\<close>). A reference
  to a feature of \<^verbatim>\<open>geoData.features\<close> is modelled by its index in that array.
\<close>

type_synonym feature_ref = nat

datatype error = TypeError | DivisionByZero

section \<open>Point in polygon by ray casting\<close>

text \<open>
  \<^verbatim>\<open>const intersect = yi > lat !== yj > lat &&
      lng < ((xj - xi) * (lat - yi)) / (yj - yi) + xi\<close>

  The conjunction short-circuits: the quotient is evaluated only when the first conjunct
  holds. JavaScript itself does not fail on a zero divisor; the model reports such a
  division as \<open>Inl DivisionByZero\<close> so that its absence can be stated.
\<close>

fun intersect :: "point \<Rightarrow> point \<Rightarrow> real \<Rightarrow> real \<Rightarrow> error + bool" where
  "intersect (xi, yi) (xj, yj) lng lat =
     (if (yi > lat) \<noteq> (yj > lat)
      then (if yj - yi = 0 then Inl DivisionByZero
            else Inr (lng < ((xj - xi) * (lat - yi)) / (yj - yi) + xi))
      else Inr False)"

text \<open>
  \<^verbatim>\<open>const [xi, yi] = ring[i]\<close>: reading outside the array gives \<^verbatim>\<open>undefined\<close>, and
  destructuring that throws a TypeError.
\<close>

definition ringAt :: "ring \<Rightarrow> int \<Rightarrow> error + point" where
  "ringAt ring k = (if 0 \<le> k \<and> k < int (length ring) then Inr (ring ! nat k) else Inl TypeError)"

text \<open>
  \<^verbatim>\<open>for (let i = 0, j = ring.length - 1; i < ring.length; j = i++) { ... }\<close>
  with the loop variables \<open>i\<close>, \<open>j\<close> and the flag \<open>inside\<close> as arguments.
\<close>

function ringLoop :: "ring \<Rightarrow> real \<Rightarrow> real \<Rightarrow> nat \<Rightarrow> int \<Rightarrow> bool \<Rightarrow> error + bool" where
  "ringLoop ring lng lat i j inside =
     (if i < length ring
      then (case ringAt ring (int i) of
              Inl e \<Rightarrow> Inl e
            | Inr p_i \<Rightarrow>
               (case ringAt ring j of
                  Inl e \<Rightarrow> Inl e
                | Inr p_j \<Rightarrow>
                   (case intersect p_i p_j lng lat of
                      Inl e \<Rightarrow> Inl e
                    | Inr b \<Rightarrow> ringLoop ring lng lat (i + 1) (int i)
                                 (if b then \<not> inside else inside))))
      else Inr inside)"
  by pat_completeness auto
termination
  by (relation "measure (\<lambda>(ring, lng, lat, i, j, inside). length ring - i)") auto

text \<open>\<^verbatim>\<open>for (const ring of rings)\<close>: the flag is carried from one ring to the next.\<close>

fun ringsLoop :: "ring list \<Rightarrow> real \<Rightarrow> real \<Rightarrow> bool \<Rightarrow> error + bool" where
  "ringsLoop [] lng lat inside = Inr inside"
| "ringsLoop (ring # rings) lng lat inside =
     (case ringLoop ring lng lat 0 (int (length ring) - 1) inside of
        Inl e \<Rightarrow> Inl e
      | Inr inside' \<Rightarrow> ringsLoop rings lng lat inside')"

declare ringLoop.simps [simp del]

definition pointInPolygonRings :: "ring list \<Rightarrow> real \<Rightarrow> real \<Rightarrow> error + bool" where
  "pointInPolygonRings rings lng lat = ringsLoop rings lng lat False"

text \<open>
  Callers use the boolean that \<open>pointInPolygonRings\<close> returns; JavaScript raises nothing
  for a zero divisor, and \<open>pointInPolygonRings_parity\<close> below shows that the error branch
  is never taken.
\<close>

definition insideRings :: "ring list \<Rightarrow> real \<Rightarrow> real \<Rightarrow> bool" where
  "insideRings rings lng lat =
     (case pointInPolygonRings rings lng lat of Inr b \<Rightarrow> b | Inl e \<Rightarrow> False)"

text \<open>
  \<^verbatim>\<open>function pointInFeature(feature, lng, lat)\<close>; \<^verbatim>\<open>Array.prototype.some\<close> is
  \<open>list_ex\<close>.
\<close>

definition pointInFeature :: "feature \<Rightarrow> real \<Rightarrow> real \<Rightarrow> bool" where
  "pointInFeature f lng lat =
     (case geometry f of
        None \<Rightarrow> False
      | Some (Polygon coordinates) \<Rightarrow> insideRings coordinates lng lat
      | Some (MultiPolygon coordinates) \<Rightarrow>
          list_ex (\<lambda>poly. insideRings poly lng lat) coordinates
      | Some (OtherGeometry ps) \<Rightarrow> False)"

text \<open>
  \<^verbatim>\<open>features.find(pred)\<close> returns the first element satisfying the predicate, or
  \<^verbatim>\<open>undefined\<close>; the model returns the reference (index) of that element.
\<close>

fun findFrom :: "('a \<Rightarrow> bool) \<Rightarrow> 'a list \<Rightarrow> nat \<Rightarrow> nat option" where
  "findFrom P [] i = None"
| "findFrom P (x # xs) i = (if P x then Some i else findFrom P xs (i + 1))"

definition findRef :: "('a \<Rightarrow> bool) \<Rightarrow> 'a list \<Rightarrow> feature_ref option" where
  "findRef P xs = findFrom P xs 0"

text \<open>
  Country resolution, written inline in \<^verbatim>\<open>buildCountryMap\<close>:
  \<^verbatim>\<open>geoData.features.find(f => pointInFeature(f, partner.lng, partner.lat))\<close>.
\<close>

definition resolve :: "feature list \<Rightarrow> real \<Rightarrow> real \<Rightarrow> feature_ref option" where
  "resolve features lng lat = findRef (\<lambda>f. pointInFeature f lng lat) features"

subsection \<open>Even-odd containment, as the specification words it\<close>

text \<open>
  An edge of a ring joins a vertex to its predecessor, the first vertex to the last.
  The edge crosses the horizontal ray from the point towards larger longitudes when its
  end points lie on different sides of the point's latitude and the ray meets it.
\<close>

fun crosses :: "point \<Rightarrow> point \<Rightarrow> real \<Rightarrow> real \<Rightarrow> bool" where
  "crosses (xi, yi) (xj, yj) lng lat =
     ((yi > lat) \<noteq> (yj > lat) \<and> lng < (xj - xi) * (lat - yi) / (yj - yi) + xi)"

definition prevIndex :: "ring \<Rightarrow> nat \<Rightarrow> nat" where
  "prevIndex ring k = (if k = 0 then length ring - 1 else k - 1)"

definition crossesAt :: "ring \<Rightarrow> real \<Rightarrow> real \<Rightarrow> nat \<Rightarrow> bool" where
  "crossesAt ring lng lat k = crosses (ring ! k) (ring ! prevIndex ring k) lng lat"

definition crossings :: "ring \<Rightarrow> real \<Rightarrow> real \<Rightarrow> nat" where
  "crossings ring lng lat = length (filter (crossesAt ring lng lat) [0..<length ring])"

definition oddCrossings :: "ring list \<Rightarrow> real \<Rightarrow> real \<Rightarrow> bool" where
  "oddCrossings rings lng lat = odd (\<Sum>ring\<leftarrow>rings. crossings ring lng lat)"

definition containsEvenOdd :: "feature \<Rightarrow> real \<Rightarrow> real \<Rightarrow> bool" where
  "containsEvenOdd f lng lat =
     (case geometry f of
        Some (Polygon rings) \<Rightarrow> oddCrossings rings lng lat
      | Some (MultiPolygon polys) \<Rightarrow> (\<exists>poly \<in> set polys. oddCrossings poly lng lat)
      | _ \<Rightarrow> False)"


section \<open>Partners and the highlight build (\<^verbatim>\<open>MatchesMap\<close>)\<close>

text \<open>
  A partner is \<^verbatim>\<open>{ name, location, lat, lng, color }\<close>. The coordinates and the colour
  may be absent (\<^verbatim>\<open>partner.lat == null\<close>, \<^verbatim>\<open>partner.color || '#3B5BF5'\<close>); \<open>None\<close>
  stands for \<^verbatim>\<open>undefined\<close>.
\<close>

record partner =
  p_name :: string
  p_location :: string
  p_lat :: "real option"
  p_lng :: "real option"
  p_color :: "string option"

text \<open>
  \<^verbatim>\<open>pointInFeature(f, partner.lng, partner.lat)\<close> with a coordinate that may be
  \<^verbatim>\<open>undefined\<close>: every comparison with \<^verbatim>\<open>undefined\<close> is false, so \<^verbatim>\<open>intersect\<close> is
  false on every edge and the flag stays \<^verbatim>\<open>false\<close>.
\<close>

definition pointInFeatureAt :: "feature \<Rightarrow> real option \<Rightarrow> real option \<Rightarrow> bool" where
  "pointInFeatureAt f lng lat =
     (case (lng, lat) of
        (Some x, Some y) \<Rightarrow> pointInFeature f x y
      | _ \<Rightarrow> False)"

definition resolvePartner :: "feature list \<Rightarrow> partner \<Rightarrow> feature_ref option" where
  "resolvePartner features p = findRef (\<lambda>f. pointInFeatureAt f (p_lng p) (p_lat p)) features"

text \<open>\<^verbatim>\<open>partner.color || '#3B5BF5'\<close>: an absent or empty colour is falsy.\<close>

definition colorOrDefault :: "string option \<Rightarrow> string" where
  "colorOrDefault c =
     (case c of None \<Rightarrow> ''#3B5BF5'' | Some s \<Rightarrow> if s = [] then ''#3B5BF5'' else s)"

record countryMatch =
  cm_feature :: feature_ref
  cm_color :: string

text \<open>
  \<^verbatim>\<open>buildCountryMap\<close>: \<^verbatim>\<open>partners.forEach\<close> with the array \<^verbatim>\<open>result\<close> as accumulator;
  \<^verbatim>\<open>result.find(r => r.feature === feature)\<close> compares references.
\<close>

fun buildLoop :: "feature list \<Rightarrow> partner list \<Rightarrow> countryMatch list \<Rightarrow> countryMatch list" where
  "buildLoop features [] result = result"
| "buildLoop features (p # ps) result =
     buildLoop features ps
       (case resolvePartner features p of
          None \<Rightarrow> result
        | Some f \<Rightarrow>
            (case find (\<lambda>r. cm_feature r = f) result of
               Some exists \<Rightarrow> result
             | None \<Rightarrow> result @ [\<lparr>cm_feature = f, cm_color = colorOrDefault (p_color p)\<rparr>]))"

definition buildCountryMap :: "feature list \<Rightarrow> partner list \<Rightarrow> countryMatch list" where
  "buildCountryMap features ps = buildLoop features ps []"

text \<open>
  The names shown in a highlighted country's tooltip, before \<^verbatim>\<open>.join(', ')\<close>:
  \<^verbatim>\<open>partners.filter(p => pointInFeature(feature, p.lng, p.lat)).map(p => p.name)\<close>.
\<close>

definition memberNames :: "feature \<Rightarrow> partner list \<Rightarrow> string list" where
  "memberNames f ps = map p_name (filter (\<lambda>p. pointInFeatureAt f (p_lng p) (p_lat p)) ps)"

fun joinWith :: "string \<Rightarrow> string list \<Rightarrow> string" where
  "joinWith sep [] = []"
| "joinWith sep [x] = x"
| "joinWith sep (x # y # ys) = x @ sep @ joinWith sep (y # ys)"

section \<open>Layers\<close>

record style =
  fillColor :: string
  fillOpacity :: real
  color :: string
  weight :: real
  opacity :: "real option"

text \<open>A coordinate as Leaflet takes it: \<^verbatim>\<open>[lat, lng]\<close>.\<close>

type_synonym latlng = "real \<times> real"

record curve =
  c_start :: latlng
  c_control :: latlng
  c_end :: latlng
  c_color :: string
  c_dashArray :: string
  c_animate :: bool

text \<open>
  What \<^verbatim>\<open>onEachFeature\<close> attaches to the layer of a matched feature: the styles set on
  \<^verbatim>\<open>mouseover\<close> and \<^verbatim>\<open>mouseout\<close>, and the tooltip (country name, partner names).
\<close>

record highlight =
  h_mouseover :: style
  h_mouseout :: style
  h_title :: "string option"
  h_names :: string

record featureLayer =
  fl_feature :: feature_ref
  fl_style :: style
  fl_highlight :: "highlight option"

datatype layer =
    GeoJSONLayer "featureLayer list"
  | CurveLayer curve
  | CircleMarker latlng

definition matchedStyle :: "countryMatch \<Rightarrow> style" where
  "matchedStyle m =
     \<lparr>fillColor = cm_color m, fillOpacity = 0.40, color = cm_color m, weight = 1.5,
      opacity = Some 0.8\<rparr>"

definition fadedStyle :: style where
  "fadedStyle =
     \<lparr>fillColor = ''#94A3B8'', fillOpacity = 0.08, color = ''#CBD5E1'', weight = 0.3,
      opacity = None\<rparr>"

text \<open>The \<^verbatim>\<open>style\<close> callback of \<^verbatim>\<open>L.geoJSON(geoData, ...)\<close>.\<close>

definition styleOf :: "countryMatch list \<Rightarrow> feature_ref \<Rightarrow> style" where
  "styleOf countryMatches i =
     (case find (\<lambda>c. cm_feature c = i) countryMatches of
        Some m \<Rightarrow> matchedStyle m
      | None \<Rightarrow> fadedStyle)"

text \<open>The \<^verbatim>\<open>onEachFeature\<close> callback.\<close>

definition onEachFeature ::
  "feature list \<Rightarrow> partner list \<Rightarrow> countryMatch list \<Rightarrow> feature_ref \<Rightarrow> highlight option" where
  "onEachFeature features ps countryMatches i =
     (case find (\<lambda>c. cm_feature c = i) countryMatches of
        None \<Rightarrow> None
      | Some m \<Rightarrow>
          (let baseStyle = \<lparr>fillColor = cm_color m, fillOpacity = 0.40, color = cm_color m,
                            weight = 1.5, opacity = None\<rparr>
           in Some \<lparr>h_mouseover = baseStyle\<lparr>fillOpacity := 0.70, weight := 2.5\<rparr>,
                    h_mouseout = baseStyle,
                    h_title = name (properties (features ! i)),
                    h_names = joinWith '', '' (memberNames (features ! i) ps)\<rparr>))"

definition allLayer :: "feature list \<Rightarrow> partner list \<Rightarrow> countryMatch list \<Rightarrow> layer" where
  "allLayer features ps countryMatches =
     GeoJSONLayer
       (map (\<lambda>i. \<lparr>fl_feature = i, fl_style = styleOf countryMatches i,
                  fl_highlight = onEachFeature features ps countryMatches i\<rparr>)
            [0..<length features])"


section \<open>Lookup by name\<close>

text \<open>
  \<^verbatim>\<open>String.prototype.toLowerCase\<close> on the ASCII letters; a string is a list of bytes and
  every other byte is left as it is.
\<close>

definition lowerChar :: "char \<Rightarrow> char" where
  "lowerChar c =
     (case map_of (zip ''ABCDEFGHIJKLMNOPQRSTUVWXYZ'' ''abcdefghijklmnopqrstuvwxyz'') c of
        Some l \<Rightarrow> l
      | None \<Rightarrow> c)"

definition toLowerCase :: "string \<Rightarrow> string" where
  "toLowerCase s = map lowerChar s"

text \<open>\<^verbatim>\<open>(x || '')\<close> for a string that may be absent.\<close>

definition orEmpty :: "string option \<Rightarrow> string" where
  "orEmpty x = (case x of None \<Rightarrow> [] | Some s \<Rightarrow> s)"

text \<open>
  The predicate of the name lookup in \<^verbatim>\<open>renderAll\<close>:
  \<^verbatim>\<open>(f.properties.name || '').toLowerCase() === (homeCountry || '').toLowerCase() ||
  ((f.properties.formal_en || '').toLowerCase() === (homeCountry || '').toLowerCase())\<close>.
\<close>

definition nameMatches :: "string \<Rightarrow> feature \<Rightarrow> bool" where
  "nameMatches homeCountry f =
     (toLowerCase (orEmpty (name (properties f))) = toLowerCase homeCountry \<or>
      toLowerCase (orEmpty (formal_en (properties f))) = toLowerCase homeCountry)"

text \<open>
  The lookup of \<^verbatim>\<open>TradeMap.processCountry\<close> (and \<^verbatim>\<open>highlightCountry\<close>) reads
  \<^verbatim>\<open>f.properties.name.toLowerCase()\<close> unguarded: a feature without a name raises a
  TypeError when \<^verbatim>\<open>find\<close> reaches it.
\<close>

fun findByNameFrom :: "string \<Rightarrow> feature list \<Rightarrow> nat \<Rightarrow> error + feature_ref option" where
  "findByNameFrom q [] i = Inr None"
| "findByNameFrom q (f # fs) i =
     (case name (properties f) of
        None \<Rightarrow> Inl TypeError
      | Some n \<Rightarrow>
          if toLowerCase n = toLowerCase q \<or>
             toLowerCase (orEmpty (formal_en (properties f))) = toLowerCase q
          then Inr (Some i)
          else findByNameFrom q fs (i + 1))"

section \<open>Bounding envelope (Leaflet)\<close>

text \<open>
  \<^verbatim>\<open>L.geoJSON(feature).getBounds().getCenter()\<close>: Leaflet extends a \<^verbatim>\<open>LatLngBounds\<close> by
  every position of the geometry and returns the middle of the envelope. For a feature
  that yields no position the bounds stay empty and \<^verbatim>\<open>getCenter\<close> raises a TypeError.
\<close>

fun positions :: "geometry \<Rightarrow> point list" where
  "positions (Polygon rings) = concat rings"
| "positions (MultiPolygon polys) = concat (concat polys)"
| "positions (OtherGeometry ps) = ps"

definition boundsCenter :: "feature \<Rightarrow> error + latlng" where
  "boundsCenter f =
     (case geometry f of
        None \<Rightarrow> Inl TypeError
      | Some g \<Rightarrow>
          (case positions g of
             [] \<Rightarrow> Inl TypeError
           | (x, y) # ps \<Rightarrow>
               (let south = fold min (map snd ps) y; north = fold max (map snd ps) y;
                    west = fold min (map fst ps) x; east = fold max (map fst ps) x
                in Inr ((south + north) / 2, (west + east) / 2))))"

section \<open>Home coordinate (\<^verbatim>\<open>renderAll\<close>, step 2)\<close>

text \<open>
  \<^verbatim>\<open>let home = [homeLat, homeLng]
  if (homeCountry && geoData) {
    const feature = geoData.features.find(...)
    if (feature) { try { ... home = [center.lat, center.lng] } catch (e) { } }
  }\<close>
  The result is a sum so that a failure escaping the block would be a value \<open>Inl\<close>.
\<close>

definition resolveHome :: "string \<Rightarrow> latlng \<Rightarrow> feature list \<Rightarrow> error + latlng" where
  "resolveHome homeCountry defaultCoord features =
     (if homeCountry \<noteq> []
      then (case findRef (nameMatches homeCountry) features of
              None \<Rightarrow> Inr defaultCoord
            | Some i \<Rightarrow>
                (case boundsCenter (features ! i) of
                   Inr center \<Rightarrow> Inr center
                 | Inl e \<Rightarrow> Inr defaultCoord))
      else Inr defaultCoord)"

definition homeOf :: "string \<Rightarrow> latlng \<Rightarrow> feature list \<Rightarrow> latlng" where
  "homeOf homeCountry defaultCoord features =
     (case resolveHome homeCountry defaultCoord features of
        Inr home \<Rightarrow> home
      | Inl e \<Rightarrow> defaultCoord)"

section \<open>Curves\<close>

text \<open>
  Fan-out (\<^verbatim>\<open>renderAll\<close>, step 2): one curve from \<^verbatim>\<open>home\<close> to each partner that has
  both coordinates.
\<close>

definition fanOutCurve :: "latlng \<Rightarrow> partner \<Rightarrow> curve option" where
  "fanOutCurve home p =
     (case (p_lat p, p_lng p) of
        (Some plat, Some plng) \<Rightarrow>
          (let dest = (plat, plng);
               dLat = fst dest - fst home;
               dLng = snd dest - snd home;
               dist = sqrt (dLat * dLat + dLng * dLng);
               lift = min (dist * 0.35) 40;
               controlPt = ((fst home + fst dest) / 2 + lift, (snd home + snd dest) / 2)
           in Some \<lparr>c_start = home, c_control = controlPt, c_end = dest,
                    c_color = colorOrDefault (p_color p), c_dashArray = ''6, 10'',
                    c_animate = True\<rparr>)
      | _ \<Rightarrow> None)"

text \<open>The free-form route builder: \<^verbatim>\<open>TradeMap.drawTradeCurve(start, end, map, L)\<close>.\<close>

definition drawTradeCurve :: "latlng \<Rightarrow> latlng \<Rightarrow> curve" where
  "drawTradeCurve start end =
     (let midLat = (fst start + fst end) / 2;
          midLng = (snd start + snd end) / 2;
          controlPoint = (midLat + 15, midLng)
      in \<lparr>c_start = start, c_control = controlPoint, c_end = end,
          c_color = ''#2563EB'', c_dashArray = ''5, 10'', c_animate = False\<rparr>)"

section \<open>One render pass (\<^verbatim>\<open>MatchesMap.renderAll\<close>)\<close>

text \<open>
  \<^verbatim>\<open>renderAll\<close> first removes every layer held in \<^verbatim>\<open>geoLayersRef\<close> and
  \<^verbatim>\<open>curveLayersRef\<close> from the map and empties both arrays; every layer it then adds to
  the map is pushed on one of them. The function returns the two arrays after the pass,
  which are also the layers on the map besides the tiles. The closing \<^verbatim>\<open>fitBounds\<close>
  moves the view only.
\<close>

definition renderAll ::
  "real \<Rightarrow> real \<Rightarrow> string \<Rightarrow> feature list \<Rightarrow> partner list \<Rightarrow> layer list \<times> layer list" where
  "renderAll homeLat homeLng homeCountry features ps =
     (if ps = [] then ([], [])
      else
        (let countryMatches = buildCountryMap features ps;
             home = homeOf homeCountry (homeLat, homeLng) features;
             curves = map CurveLayer (List.map_filter (fanOutCurve home) ps);
             homeMarker = CircleMarker home
         in ([allLayer features ps countryMatches, homeMarker], curves)))"


section \<open>The free-form route builder (\<^verbatim>\<open>TradeMap\<close>)\<close>

text \<open>
  The component's refs and state: the text of the input field, the button's label and
  background, \<^verbatim>\<open>exporterRef\<close>, \<^verbatim>\<open>geoDataRef\<close>, whether \<^verbatim>\<open>instanceRef\<close> holds a map, the
  country layers added to \<^verbatim>\<open>highlightRef\<close>, the curves added to the map and the alerts
  shown.
\<close>

record tradeMap =
  query :: string
  btnLabel :: string
  btnBg :: string
  exporterRef :: "latlng option"
  tm_geoDataRef :: "feature list option"
  tm_instanceRef :: bool
  tm_highlights :: "(feature_ref \<times> style) list"
  tm_curves :: "curve list"
  tm_alerts :: "string list"

datatype outcome = Ignored | NotFound | OriginSet | CurveDrawn | Threw error

text \<open>\<^verbatim>\<open>String.prototype.trim\<close> on the ASCII white space.\<close>

definition isSpace :: "char \<Rightarrow> bool" where
  "isSpace c = (c \<in> set [CHR 0x09, CHR 0x0A, CHR 0x0B, CHR 0x0C, CHR 0x0D, CHR '' ''])"

definition trim :: "string \<Rightarrow> string" where
  "trim s = rev (dropWhile isSpace (rev (dropWhile isSpace s)))"

definition selectedStyle :: style where
  "selectedStyle =
     \<lparr>fillColor = ''#2563EB'', fillOpacity = 0.4, color = ''white'', weight = 1,
      opacity = Some 1\<rparr>"

text \<open>
  \<^verbatim>\<open>processCountry\<close>; \<open>hasL\<close> says whether \<^verbatim>\<open>window.L\<close> is loaded. The state
  setters take effect in the state returned. An exception leaves the changes made before
  it in place.
\<close>

definition processCountry :: "bool \<Rightarrow> tradeMap \<Rightarrow> tradeMap \<times> outcome" where
  "processCountry hasL s =
     (if \<not> hasL \<or> trim (query s) = [] \<or> tm_geoDataRef s = None \<or> \<not> tm_instanceRef s
      then (s, Ignored)
      else
        (let features = the (tm_geoDataRef s) in
         case findByNameFrom (query s) features 0 of
           Inl e \<Rightarrow> (s, Threw e)
         | Inr None \<Rightarrow>
             (s\<lparr>tm_alerts := tm_alerts s @ [''Country not found. Try: Brazil, China, Canada'']\<rparr>,
              NotFound)
         | Inr (Some i) \<Rightarrow>
             (let s1 = s\<lparr>tm_highlights := tm_highlights s @ [(i, selectedStyle)]\<rparr> in
              case boundsCenter (features ! i) of
                Inl e \<Rightarrow> (s1, Threw e)
              | Inr center \<Rightarrow>
                  (case exporterRef s1 of
                     None \<Rightarrow>
                       (s1\<lparr>exporterRef := Some center,
                           btnLabel := ''Add Destination'',
                           btnBg := ''#10B981'',
                           tm_highlights := tm_highlights s @
                             [(i, selectedStyle\<lparr>fillOpacity := 0.7, fillColor := ''#1E3A8A''\<rparr>)],
                           query := []\<rparr>,
                        OriginSet)
                   | Some exporter \<Rightarrow>
                       (s1\<lparr>tm_curves := tm_curves s1 @ [drawTradeCurve exporter center],
                           query := []\<rparr>,
                        CurveDrawn)))))"

text \<open>The user types a text into the input field and presses the button.\<close>

definition submit :: "bool \<Rightarrow> string \<Rightarrow> tradeMap \<Rightarrow> tradeMap \<times> outcome" where
  "submit hasL txt s = processCountry hasL (s\<lparr>query := txt\<rparr>)"

fun submitAll :: "bool \<Rightarrow> string list \<Rightarrow> tradeMap \<Rightarrow> tradeMap" where
  "submitAll hasL [] s = s"
| "submitAll hasL (txt # txts) s = submitAll hasL txts (fst (submit hasL txt s))"

text \<open>The component after mounting, once the boundary data has arrived.\<close>

definition tradeMapReady :: "feature list \<Rightarrow> tradeMap" where
  "tradeMapReady features =
     \<lparr>query = [], btnLabel = ''Set Exporter'', btnBg = ''#2563EB'', exporterRef = None,
      tm_geoDataRef = Some features, tm_instanceRef = True, tm_highlights = [],
      tm_curves = [], tm_alerts = []\<rparr>"

section \<open>The \<^verbatim>\<open>MatchesMap\<close> component\<close>

record props =
  partners :: "partner list"
  homeLat :: real
  homeLng :: real
  homeCountry :: string

text \<open>
  The refs of one mounted component, the props of its latest render, the props of its
  first render (the ones the closures created by the mount effect see), whether the
  request for the boundary data is still pending, and whether its promise was rejected
  with no handler attached.
\<close>

record matchesMap =
  instanceRef :: bool
  geoDataRef :: "feature list option"
  geoLayersRef :: "layer list"
  curveLayersRef :: "layer list"
  latest :: props
  captured :: props
  fetchPending :: bool
  unhandledRejection :: bool

definition renderWith :: "props \<Rightarrow> feature list \<Rightarrow> matchesMap \<Rightarrow> matchesMap" where
  "renderWith pr data s =
     (let (geo, curves) = renderAll (homeLat pr) (homeLng pr) (homeCountry pr) data (partners pr)
      in s\<lparr>geoLayersRef := geo, curveLayersRef := curves\<rparr>)"

text \<open>
  The mount effect (\<^verbatim>\<open>useEffect(..., [])\<close>): without \<^verbatim>\<open>window.L\<close> it returns at once;
  otherwise it creates the map and issues
  \<^verbatim>\<open>fetch(url).then(r => r.json()).then(data => { ... })\<close>. The second component of the
  result is the number of requests issued.
\<close>

definition mount :: "bool \<Rightarrow> props \<Rightarrow> matchesMap \<times> nat" where
  "mount hasL pr =
     (let s = \<lparr>instanceRef = False, geoDataRef = None, geoLayersRef = [], curveLayersRef = [],
               latest = pr, captured = pr, fetchPending = False, unhandledRejection = False\<rparr>
      in if \<not> hasL then (s, 0)
         else (s\<lparr>instanceRef := True, fetchPending := True\<rparr>, 1))"

text \<open>
  The two re-render effects have the same body:
  \<^verbatim>\<open>if (!instanceRef.current || !geoDataRef.current || !L) return
  renderAll(instanceRef.current, geoDataRef.current, partners, L)\<close>
  with the props of the render that created the effect. The map exists only if
  \<^verbatim>\<open>window.L\<close> was loaded at mount, so the third test adds nothing.
\<close>

definition redrawEffect :: "matchesMap \<Rightarrow> matchesMap" where
  "redrawEffect s =
     (case geoDataRef s of
        None \<Rightarrow> s
      | Some data \<Rightarrow> if \<not> instanceRef s then s else renderWith (latest s) data s)"

text \<open>
  A re-render with new props. The effect on \<^verbatim>\<open>[partners]\<close> runs when the array is
  another object (\<open>newArray\<close>), the one on \<^verbatim>\<open>[homeCountry]\<close> when the string differs.
\<close>

definition rerender :: "props \<Rightarrow> bool \<Rightarrow> matchesMap \<Rightarrow> matchesMap" where
  "rerender pr newArray s =
     (let s1 = s\<lparr>latest := pr\<rparr>;
          s2 = (if newArray \<or> partners pr \<noteq> partners (latest s) then redrawEffect s1 else s1);
          s3 = (if homeCountry pr \<noteq> homeCountry (latest s) then redrawEffect s2 else s2)
      in s3)"

text \<open>
  The request succeeds: \<^verbatim>\<open>data => { geoDataRef.current = data;
  renderAll(map, data, partners, L) }\<close>, where \<^verbatim>\<open>partners\<close> and \<^verbatim>\<open>renderAll\<close> are those of
  the render in which the mount effect was created.
\<close>

definition fetchResolved :: "feature list \<Rightarrow> matchesMap \<Rightarrow> matchesMap" where
  "fetchResolved data s =
     (if \<not> fetchPending s then s
      else renderWith (captured s) data (s\<lparr>geoDataRef := Some data, fetchPending := False\<rparr>))"

text \<open>
  The request or \<^verbatim>\<open>r.json()\<close> fails: the chain has no \<^verbatim>\<open>catch\<close> and no second argument
  to \<^verbatim>\<open>then\<close>, so the rejection is left unhandled.
\<close>

definition fetchRejected :: "matchesMap \<Rightarrow> matchesMap" where
  "fetchRejected s =
     (if \<not> fetchPending s then s
      else s\<lparr>fetchPending := False, unhandledRejection := True\<rparr>)"

text \<open>
  What the specification calls \<open>Ready\<close>: the component redraws on a change of its props,
  which the guard of the re-render effects allows once both refs are set.
\<close>

definition ready :: "matchesMap \<Rightarrow> bool" where
  "ready s = (instanceRef s \<and> geoDataRef s \<noteq> None)"

subsection \<open>A page with several components\<close>

record process =
  components :: "matchesMap list"
  requests :: nat

datatype event =
    Mount bool props
  | Rerender nat props bool
  | FetchResolved nat "feature list"
  | FetchRejected nat

definition updateAt :: "nat \<Rightarrow> (matchesMap \<Rightarrow> matchesMap) \<Rightarrow> process \<Rightarrow> process" where
  "updateAt k f pc =
     (if k < length (components pc)
      then pc\<lparr>components := (components pc)[k := f (components pc ! k)]\<rparr>
      else pc)"

fun step :: "process \<Rightarrow> event \<Rightarrow> process" where
  "step pc (Mount hasL pr) =
     (let (s, n) = mount hasL pr
      in pc\<lparr>components := components pc @ [s], requests := requests pc + n\<rparr>)"
| "step pc (Rerender k pr newArray) = updateAt k (rerender pr newArray) pc"
| "step pc (FetchResolved k data) = updateAt k (fetchResolved data) pc"
| "step pc (FetchRejected k) = updateAt k fetchRejected pc"

definition run :: "event list \<Rightarrow> process \<Rightarrow> process" where
  "run evs pc = foldl step pc evs"

definition initialPage :: process where
  "initialPage = \<lparr>components = [], requests = 0\<rparr>"


text \<open>A sequence of re-renders of one component.\<close>

fun rerenders :: "(props \<times> bool) list \<Rightarrow> matchesMap \<Rightarrow> matchesMap" where
  "rerenders [] s = s"
| "rerenders ((pr, newArray) # rs) s = rerenders rs (rerender pr newArray s)"

text \<open>The number of mount effects in a run that got as far as issuing the request.\<close>

fun mounts :: "event list \<Rightarrow> nat" where
  "mounts [] = 0"
| "mounts (Mount hasL pr # evs) = (if hasL then 1 else 0) + mounts evs"
| "mounts (ev # evs) = mounts evs"

section \<open>Example data\<close>

definition squareF :: feature where
  "squareF =
     \<lparr>geometry = Some (Polygon [[(0, 0), (4, 0), (4, 4), (0, 4), (0, 0)]]),
      properties = \<lparr>name = Some ''Square'', formal_en = None\<rparr>\<rparr>"

definition islandsF :: feature where
  "islandsF =
     \<lparr>geometry = Some (MultiPolygon [[[(10, 0), (14, 0), (14, 4), (10, 4)]],
                                     [[(20, 0), (24, 0), (24, 4), (20, 4)]]]),
      properties = \<lparr>name = Some ''Islands'', formal_en = Some ''Republic of Islands''\<rparr>\<rparr>"

definition bareF :: feature where
  "bareF = \<lparr>geometry = None, properties = \<lparr>name = Some ''Bare'', formal_en = None\<rparr>\<rparr>"

definition world :: "feature list" where
  "world = [squareF, islandsF, bareF]"

definition pAlpha :: partner where
  "pAlpha = \<lparr>p_name = ''Alpha'', p_location = ''Square'', p_lat = Some 1, p_lng = Some 1,
             p_color = Some []\<rparr>"

definition pBeta :: partner where
  "pBeta = \<lparr>p_name = ''Beta'', p_location = ''Square'', p_lat = Some 2, p_lng = Some 1,
            p_color = Some ''#0F0''\<rparr>"

definition pGamma :: partner where
  "pGamma = \<lparr>p_name = ''Gamma'', p_location = ''Islands'', p_lat = Some 1, p_lng = Some 21,
             p_color = Some ''#00F''\<rparr>"

definition pDelta :: partner where
  "pDelta = \<lparr>p_name = ''Delta'', p_location = ''Unknown'', p_lat = None, p_lng = None,
             p_color = Some ''#F00''\<rparr>"

definition pZeta :: partner where
  "pZeta = \<lparr>p_name = ''Zeta'', p_location = ''Near'', p_lat = Some 6, p_lng = Some 8,
            p_color = Some ''#F0F''\<rparr>"

definition pEta :: partner where
  "pEta = \<lparr>p_name = ''Eta'', p_location = ''Far'', p_lat = Some 90, p_lng = Some 120,
           p_color = None\<rparr>"

definition pEpsilon :: partner where
  "pEpsilon = \<lparr>p_name = ''Epsilon'', p_location = ''Sea'', p_lat = Some 100, p_lng = Some 100,
               p_color = None\<rparr>"

definition noPartners :: props where
  "noPartners = \<lparr>partners = [], homeLat = -14.2, homeLng = -51.9, homeCountry = []\<rparr>"

definition twoPartners :: props where
  "twoPartners =
     \<lparr>partners = [pAlpha, pGamma], homeLat = -14.2, homeLng = -51.9, homeCountry = []\<rparr>"

definition stalePage :: process where
  "stalePage =
     run [Mount True noPartners, Rerender 0 twoPartners True, FetchResolved 0 world] initialPage"

section \<open>Verification: point in polygon\<close>

lemma intersect_crosses: "intersect p q lng lat = Inr (crosses p q lng lat)"
  by (cases p; cases q) auto

lemma ringLoop_parity:
  "i \<le> length ring \<Longrightarrow> (i < length ring \<longrightarrow> j = int (prevIndex ring i)) \<Longrightarrow>
   ringLoop ring lng lat i j inside =
     Inr (inside \<noteq> odd (length (filter (crossesAt ring lng lat) [i..<length ring])))"
proof (induction ring lng lat i j inside rule: ringLoop.induct)
  case (1 ring lng lat i j inside)
  show ?case
  proof (cases "i < length ring")
    case False
    with "1.prems" have "i = length ring" by simp
    then show ?thesis by (subst ringLoop.simps) simp
  next
    case True
    then have j: "j = int (prevIndex ring i)" using "1.prems" by simp
    have pj: "prevIndex ring i < length ring"
      using True by (auto simp: prevIndex_def)
    have ai: "ringAt ring (int i) = Inr (ring ! i)"
      using True by (simp add: ringAt_def)
    have aj: "ringAt ring j = Inr (ring ! prevIndex ring i)"
      using pj j by (simp add: ringAt_def)
    let ?b = "crossesAt ring lng lat i"
    have ix: "intersect (ring ! i) (ring ! prevIndex ring i) lng lat = Inr ?b"
      by (simp add: intersect_crosses crossesAt_def)
    have nxt: "i + 1 < length ring \<longrightarrow> int i = int (prevIndex ring (i + 1))"
      by (simp add: prevIndex_def)
    have IH: "ringLoop ring lng lat (i + 1) (int i) (if ?b then \<not> inside else inside) =
        Inr ((if ?b then \<not> inside else inside) \<noteq>
             odd (length (filter (crossesAt ring lng lat) [i + 1..<length ring])))"
      using "1.IH"[OF True ai aj ix] True nxt by simp
    have up: "[i..<length ring] = i # [i + 1..<length ring]"
      using True by (simp add: upt_conv_Cons)
    have step: "ringLoop ring lng lat i j inside =
        ringLoop ring lng lat (i + 1) (int i) (if ?b then \<not> inside else inside)"
      by (subst ringLoop.simps) (simp only: True ai aj ix if_True sum.case)
    show ?thesis
      by (simp only: step IH up) auto
  qed
qed

lemma ringLoop_crossings:
  "ringLoop ring lng lat 0 (int (length ring) - 1) inside =
     Inr (inside \<noteq> odd (crossings ring lng lat))"
proof -
  have "0 < length ring \<longrightarrow> int (length ring) - 1 = int (prevIndex ring 0)"
    by (cases ring) (auto simp: prevIndex_def)
  then show ?thesis
    using ringLoop_parity[of 0 ring "int (length ring) - 1" lng lat inside]
    by (simp add: crossings_def)
qed

lemma ringsLoop_parity:
  "ringsLoop rings lng lat inside =
     Inr (inside \<noteq> odd (\<Sum>ring\<leftarrow>rings. crossings ring lng lat))"
proof (induction rings arbitrary: inside)
  case Nil
  then show ?case by simp
next
  case (Cons ring rings)
  have "ringsLoop (ring # rings) lng lat inside =
          ringsLoop rings lng lat (inside \<noteq> odd (crossings ring lng lat))"
    by (simp only: ringsLoop.simps ringLoop_crossings sum.case)
  then show ?case
    by (simp only: Cons.IH) auto
qed

lemma pointInPolygonRings_parity:
  "pointInPolygonRings rings lng lat = Inr (oddCrossings rings lng lat)"
  by (simp add: pointInPolygonRings_def ringsLoop_parity oddCrossings_def)

lemma insideRings_parity: "insideRings rings lng lat = oddCrossings rings lng lat"
  by (simp add: insideRings_def pointInPolygonRings_parity)

lemma pointInFeature_containsEvenOdd:
  "pointInFeature f lng lat = containsEvenOdd f lng lat"
  by (auto simp: pointInFeature_def containsEvenOdd_def insideRings_parity list_ex_iff
           split: option.splits geometry.splits)

lemma findFrom_Some_iff:
  "findFrom P xs k = Some i \<longleftrightarrow>
     (k \<le> i \<and> i - k < length xs \<and> P (xs ! (i - k)) \<and> (\<forall>j < i - k. \<not> P (xs ! j)))"
proof (induction xs arbitrary: k)
  case Nil
  then show ?case by simp
next
  case (Cons x xs)
  show ?case
  proof (cases "P x")
    case True
    then show ?thesis by (auto simp: nth_Cons')
  next
    case False
    have "findFrom P (x # xs) k = Some i \<longleftrightarrow> findFrom P xs (k + 1) = Some i"
      using False by simp
    also have "\<dots> \<longleftrightarrow> (k + 1 \<le> i \<and> i - (k + 1) < length xs \<and> P (xs ! (i - (k + 1))) \<and>
                      (\<forall>j < i - (k + 1). \<not> P (xs ! j)))"
      by (rule Cons.IH)
    also have "\<dots> \<longleftrightarrow> (k \<le> i \<and> i - k < length (x # xs) \<and> P ((x # xs) ! (i - k)) \<and>
                      (\<forall>j < i - k. \<not> P ((x # xs) ! j)))"
      (is "?L \<longleftrightarrow> ?R")
    proof
      assume L: ?L
      then have "k + 1 \<le> i" by simp
      then have "i - k = Suc (i - (k + 1))" by simp
      with L False show ?R by (auto simp: nth_Cons' less_Suc_eq_0_disj)
    next
      assume R: ?R
      with False have "i - k \<noteq> 0" by (auto intro: ccontr)
      then obtain m where m: "i - k = Suc m" by (cases "i - k") auto
      then have m': "i - (k + 1) = m" by simp
      from R m have "\<forall>j<m. \<not> P (xs ! j)" by (auto dest: spec[of _ "Suc _"])
      with R m m' show ?L by auto
    qed
    finally show ?thesis .
  qed
qed

lemma findFrom_None_iff: "findFrom P xs k = None \<longleftrightarrow> (\<forall>x \<in> set xs. \<not> P x)"
  by (induction xs arbitrary: k) auto

lemma findRef_Some_iff:
  "findRef P xs = Some i \<longleftrightarrow> (i < length xs \<and> P (xs ! i) \<and> (\<forall>j < i. \<not> P (xs ! j)))"
  using findFrom_Some_iff[of P xs 0 i] by (simp add: findRef_def)

lemma findRef_None_iff: "findRef P xs = None \<longleftrightarrow> (\<forall>x \<in> set xs. \<not> P x)"
  by (simp add: findRef_def findFrom_None_iff)


lemma straddle_span: "((yi::real) > lat) \<noteq> (yj > lat) \<Longrightarrow> yj - yi \<noteq> 0"
  by auto

text \<open>
  C10. In the crossing test the quotient by \<open>yj - yi\<close> is evaluated only under the
  straddle condition \<open>(yi > lat) \<noteq> (yj > lat)\<close>, which forces \<open>yj \<noteq> yi\<close>: no edge makes
  the test divide by zero, a horizontal edge is skipped without evaluating the quotient,
  and the test returns a boolean for every list of rings and every point.
\<close>

theorem ray_casting_no_zero_division:
  "intersect (xi, yi) (xj, yj) lng lat \<noteq> Inl DivisionByZero
   \<and> ((yi > lat) \<noteq> (yj > lat) \<longrightarrow> yj - yi \<noteq> 0)
   \<and> intersect (xi, yi) (xj, yi) lng lat = Inr False
   \<and> (\<exists>b. pointInPolygonRings rings lng lat = Inr b)"
  by (auto simp: pointInPolygonRings_parity)

theorem ray_casting_no_zero_division_witness:
  "((3::real) > 1) \<noteq> ((0::real) > 1)
   \<and> intersect (2, 3) (5, 0) 1 1 = Inr True
   \<and> intersect (0, 4) (4, 4) 1 4 = Inr False
   \<and> pointInPolygonRings [[(0, 0), (4, 0), (4, 4), (0, 4)]] 1 0 = Inr True"
  using ray_casting_no_zero_division [of 2 3 5 0 1 1 "[[(0, 0), (4, 0), (4, 4), (0, 4)]]"]
  by (simp add: pointInPolygonRings_def ringLoop.simps ringAt_def)




section \<open>Verification: the highlight build\<close>

lemma find_append:
  "find P (xs @ ys) = (case find P xs of Some x \<Rightarrow> Some x | None \<Rightarrow> find P ys)"
  by (induction xs) auto

lemma buildLoop_find:
  "find (\<lambda>c. cm_feature c = i) (buildLoop features ps acc) =
     (case find (\<lambda>c. cm_feature c = i) acc of
        Some m \<Rightarrow> Some m
      | None \<Rightarrow>
          (case find (\<lambda>p. resolvePartner features p = Some i) ps of
             None \<Rightarrow> None
           | Some p \<Rightarrow> Some \<lparr>cm_feature = i, cm_color = colorOrDefault (p_color p)\<rparr>))"
proof (induction ps arbitrary: acc)
  case Nil
  then show ?case by (simp split: option.splits)
next
  case (Cons p ps)
  show ?case
  proof (cases "resolvePartner features p")
    case None
    then show ?thesis by (simp add: Cons.IH split: option.splits)
  next
    case (Some f)
    show ?thesis
    proof (cases "find (\<lambda>r. cm_feature r = f) acc")
      case None
      then show ?thesis
        using Some by (auto simp: Cons.IH find_append split: option.splits)
    next
      case (Some m)
      then have "find (\<lambda>c. cm_feature c = i) acc \<noteq> None" if "f = i"
        using that by simp
      then show ?thesis
        using Some \<open>resolvePartner features p = Some f\<close>
        by (auto simp: Cons.IH split: option.splits)
    qed
  qed
qed

lemma buildLoop_distinct:
  "distinct (map cm_feature acc) \<Longrightarrow> distinct (map cm_feature (buildLoop features ps acc))"
proof (induction ps arbitrary: acc)
  case Nil
  then show ?case by simp
next
  case (Cons p ps)
  have "distinct (map cm_feature
          (case resolvePartner features p of
             None \<Rightarrow> acc
           | Some f \<Rightarrow>
               (case find (\<lambda>r. cm_feature r = f) acc of
                  Some exists \<Rightarrow> acc
                | None \<Rightarrow> acc @ [\<lparr>cm_feature = f, cm_color = colorOrDefault (p_color p)\<rparr>])))"
    using Cons.prems by (auto simp: find_None_iff split: option.splits)
  then show ?case by (simp add: Cons.IH)
qed

lemma distinct_filter_find:
  "distinct (map g xs) \<Longrightarrow>
   filter (\<lambda>c. g c = i) xs = (case find (\<lambda>c. g c = i) xs of None \<Rightarrow> [] | Some m \<Rightarrow> [m])"
proof (induction xs)
  case Nil
  then show ?case by simp
next
  case (Cons x xs)
  show ?case
  proof (cases "g x = i")
    case True
    from Cons.prems have "g x \<notin> g ` set xs" by simp
    with True have "\<forall>c \<in> set xs. g c \<noteq> i" by (metis imageI)
    then have "filter (\<lambda>c. g c = i) xs = []" by (simp add: filter_empty_conv)
    with True show ?thesis by simp
  next
    case False
    with Cons show ?thesis by simp
  qed
qed

lemma find_filter_hd:
  "find P xs = (case filter P xs of [] \<Rightarrow> None | y # ys \<Rightarrow> Some y)"
  by (induction xs) auto

lemma buildCountryMap_distinct: "distinct (map cm_feature (buildCountryMap features ps))"
  by (simp add: buildCountryMap_def buildLoop_distinct)

lemma buildCountryMap_filter:
  "filter (\<lambda>c. cm_feature c = i) (buildCountryMap features ps) =
     (case filter (\<lambda>p. resolvePartner features p = Some i) ps of
        [] \<Rightarrow> []
      | q # qs \<Rightarrow> [\<lparr>cm_feature = i, cm_color = colorOrDefault (p_color q)\<rparr>])"
proof -
  have "filter (\<lambda>c. cm_feature c = i) (buildCountryMap features ps) =
          (case find (\<lambda>c. cm_feature c = i) (buildCountryMap features ps) of
             None \<Rightarrow> [] | Some m \<Rightarrow> [m])"
    by (rule distinct_filter_find[OF buildCountryMap_distinct])
  also have "find (\<lambda>c. cm_feature c = i) (buildCountryMap features ps) =
          (case find (\<lambda>p. resolvePartner features p = Some i) ps of
             None \<Rightarrow> None
           | Some p \<Rightarrow> Some \<lparr>cm_feature = i, cm_color = colorOrDefault (p_color p)\<rparr>)"
    by (simp add: buildCountryMap_def buildLoop_find)
  finally show ?thesis
    by (simp add: find_filter_hd[of "\<lambda>p. resolvePartner features p = Some i"]
        split: list.splits)
qed

lemma resolvePartner_resolve:
  "resolvePartner features p =
     (case (p_lng p, p_lat p) of
        (Some x, Some y) \<Rightarrow> resolve features x y
      | _ \<Rightarrow> None)"
  by (auto simp: resolvePartner_def resolve_def pointInFeatureAt_def findRef_None_iff
      split: option.splits)

lemma resolvePartner_inside:
  "resolvePartner features p = Some i \<Longrightarrow>
   i < length features \<and> pointInFeatureAt (features ! i) (p_lng p) (p_lat p)"
  by (simp add: resolvePartner_def findRef_Some_iff)

lemma subseq_filter_imp:
  "(\<And>x. x \<in> set xs \<Longrightarrow> P x \<Longrightarrow> Q x) \<Longrightarrow> subseq (filter P xs) (filter Q xs)"
proof (induction xs)
  case Nil
  then show ?case by simp
next
  case (Cons x xs)
  then have IH: "subseq (filter P xs) (filter Q xs)" by simp
  show ?case
  proof (cases "P x")
    case True
    with Cons.prems have "Q x" by simp
    with True IH show ?thesis by simp
  next
    case False
    with IH show ?thesis by (auto intro: subseq_Cons')
  qed
qed


lemma buildCountryMap_features:
  "cm_feature ` set (buildCountryMap features ps) =
     {i. \<exists>p \<in> set ps. resolvePartner features p = Some i}"
proof -
  have "i \<in> cm_feature ` set (buildCountryMap features ps) \<longleftrightarrow>
        (\<exists>p \<in> set ps. resolvePartner features p = Some i)" for i
  proof -
    have "i \<in> cm_feature ` set (buildCountryMap features ps) \<longleftrightarrow>
          find (\<lambda>c. cm_feature c = i) (buildCountryMap features ps) \<noteq> None"
      by (auto simp: find_None_iff)
    also have "\<dots> \<longleftrightarrow> find (\<lambda>p. resolvePartner features p = Some i) ps \<noteq> None"
      by (simp add: buildCountryMap_def buildLoop_find split: option.splits)
    also have "\<dots> \<longleftrightarrow> (\<exists>p \<in> set ps. resolvePartner features p = Some i)"
      by (auto simp: find_None_iff)
    finally show ?thesis .
  qed
  then show ?thesis by blast
qed

lemma resolvePartner_None_outside:
  "resolvePartner features p = None \<Longrightarrow> i < length features \<Longrightarrow>
   \<not> pointInFeatureAt (features ! i) (p_lng p) (p_lat p)"
  by (simp add: resolvePartner_def findRef_None_iff)

lemma memberNames_subseq:
  "subseq (map p_name (filter (\<lambda>p. resolvePartner features p = Some i) ps))
          (memberNames (features ! i) ps)"
  unfolding memberNames_def
  by (intro subseq_map subseq_filter_imp) (simp add: resolvePartner_inside)

lemma memberNames_exact:
  assumes "i < length features"
    and "\<forall>p \<in> set ps. resolvePartner features p \<in> {None, Some i}"
  shows "memberNames (features ! i) ps =
         map p_name (filter (\<lambda>p. resolvePartner features p = Some i) ps)"
proof -
  have "pointInFeatureAt (features ! i) (p_lng p) (p_lat p) \<longleftrightarrow>
        resolvePartner features p = Some i" if "p \<in> set ps" for p
    using assms that resolvePartner_inside[of features p i]
      resolvePartner_None_outside[of features p i]
    by auto
  then have "filter (\<lambda>p. pointInFeatureAt (features ! i) (p_lng p) (p_lat p)) ps =
             filter (\<lambda>p. resolvePartner features p = Some i) ps"
    by (auto intro: filter_cong)
  then show ?thesis by (simp add: memberNames_def)
qed

lemma pointInFeatureAt_eval:
  "pointInFeatureAt f (Some x) (Some y) = containsEvenOdd f x y"
  "pointInFeatureAt f None lat = False"
  "pointInFeatureAt f lng None = False"
  by (simp_all add: pointInFeatureAt_def pointInFeature_containsEvenOdd split: option.splits)

lemmas example_defs =
  world_def squareF_def islandsF_def bareF_def
  pAlpha_def pBeta_def pGamma_def pDelta_def pEpsilon_def

lemmas crossing_defs =
  containsEvenOdd_def oddCrossings_def crossings_def crossesAt_def prevIndex_def

lemma resolvePartner_examples:
  "resolvePartner world pAlpha = Some 0"
  "resolvePartner world pBeta = Some 0"
  "resolvePartner world pGamma = Some 1"
  "resolvePartner world pDelta = None"
  "resolvePartner world pEpsilon = None"
  by (simp_all add: resolvePartner_def findRef_def pointInFeatureAt_eval example_defs
      crossing_defs)

text \<open>
  C2, as the code has it. One highlight build produces at most one CountryMatch per
  feature,
  keyed by the feature's identity: the features matched are exactly those some partner
  resolves to. When the partners resolving to a feature are \<open>q # qs\<close> in encounter
  order, exactly one CountryMatch is produced for it; its colour is the colour of \<open>q\<close>,
  or the default \<open>#3B5BF5\<close> when \<open>q\<close> has no colour or an empty one; the labels of
  \<open>q # qs\<close> appear in the feature's member names in encounter order, and are all of them
  when every partner resolves to this feature or to none. Partners resolving to no
  feature contribute no CountryMatch.
\<close>

theorem highlight_build_dedup:
  "distinct (map cm_feature (buildCountryMap features ps))
   \<and> cm_feature ` set (buildCountryMap features ps) =
       {i. \<exists>p \<in> set ps. resolvePartner features p = Some i}
   \<and> (filter (\<lambda>p. resolvePartner features p = Some i) ps = q # qs \<longrightarrow>
        filter (\<lambda>c. cm_feature c = i) (buildCountryMap features ps) =
          [\<lparr>cm_feature = i, cm_color = colorOrDefault (p_color q)\<rparr>]
        \<and> subseq (map p_name (q # qs)) (memberNames (features ! i) ps)
        \<and> ((\<forall>p \<in> set ps. resolvePartner features p \<in> {None, Some i}) \<longrightarrow>
             memberNames (features ! i) ps = map p_name (q # qs)))"
proof (intro conjI impI)
  show "distinct (map cm_feature (buildCountryMap features ps))"
    by (rule buildCountryMap_distinct)
  show "cm_feature ` set (buildCountryMap features ps) =
       {i. \<exists>p \<in> set ps. resolvePartner features p = Some i}"
    by (rule buildCountryMap_features)
next
  assume f: "filter (\<lambda>p. resolvePartner features p = Some i) ps = q # qs"
  show "filter (\<lambda>c. cm_feature c = i) (buildCountryMap features ps) =
          [\<lparr>cm_feature = i, cm_color = colorOrDefault (p_color q)\<rparr>]"
    by (simp add: buildCountryMap_filter f)
  show "subseq (map p_name (q # qs)) (memberNames (features ! i) ps)"
    using memberNames_subseq[of features i ps] by (simp only: f)
  have "q \<in> set (filter (\<lambda>p. resolvePartner features p = Some i) ps)"
    by (simp only: f) simp
  then have "resolvePartner features q = Some i" by simp
  then have i: "i < length features" by (simp add: resolvePartner_inside)
  assume "\<forall>p \<in> set ps. resolvePartner features p \<in> {None, Some i}"
  then show "memberNames (features ! i) ps = map p_name (q # qs)"
    using memberNames_exact[OF i, of ps] by (simp only: f)
qed

theorem highlight_build_dedup_witness:
  "filter (\<lambda>p. resolvePartner world p = Some 0) [pEpsilon, pBeta, pDelta, pAlpha] =
     [pBeta, pAlpha]
   \<and> resolvePartner world pEpsilon = None \<and> resolvePartner world pBeta = Some 0
   \<and> resolvePartner world pDelta = None \<and> resolvePartner world pAlpha = Some 0
   \<and> filter (\<lambda>c. cm_feature c = 0) (buildCountryMap world [pEpsilon, pBeta, pDelta, pAlpha]) =
       [\<lparr>cm_feature = 0, cm_color = ''#0F0''\<rparr>]
   \<and> memberNames (world ! 0) [pEpsilon, pBeta, pDelta, pAlpha] = [''Beta'', ''Alpha'']"
proof -
  have f: "filter (\<lambda>p. resolvePartner world p = Some 0) [pEpsilon, pBeta, pDelta, pAlpha] =
     [pBeta, pAlpha]"
    by (simp add: resolvePartner_examples)
  have a: "\<forall>p \<in> set [pEpsilon, pBeta, pDelta, pAlpha]. resolvePartner world p \<in> {None, Some 0}"
    by (simp add: resolvePartner_examples)
  have n: "colorOrDefault (p_color pBeta) = ''#0F0''" "map p_name [pBeta, pAlpha] = [''Beta'', ''Alpha'']"
    by (simp_all add: colorOrDefault_def pBeta_def pAlpha_def)
  show ?thesis
    using highlight_build_dedup [of world "[pEpsilon, pBeta, pDelta, pAlpha]" 0 pBeta "[pAlpha]"]
      f a n
    by (simp add: resolvePartner_examples)
qed

text \<open>
  C2 in its original wording fails where the first partner of a feature has an empty
  colour: the
  CountryMatch takes the default colour, not the partner's.
\<close>

theorem highlight_colour_counterexample:
  "resolvePartner world pAlpha = Some 0 \<and> resolvePartner world pBeta = Some 0
   \<and> buildCountryMap world [pAlpha, pBeta] = [\<lparr>cm_feature = 0, cm_color = ''#3B5BF5''\<rparr>]
   \<and> p_color pAlpha = Some []
   \<and> Some ''#3B5BF5'' \<noteq> p_color pAlpha"
  by (simp add: resolvePartner_examples buildCountryMap_def colorOrDefault_def)
    (simp add: pAlpha_def)


section \<open>Verification: curves\<close>

lemma sqrt_100: "sqrt 100 = 10"
  by (rule real_sqrt_unique) simp_all

lemma sqrt_22500: "sqrt 22500 = 150"
  by (rule real_sqrt_unique) simp_all

lemma fanOutCurve_control:
  assumes "p_lat p = Some plat" "p_lng p = Some plng"
  shows "\<exists>c. fanOutCurve home p = Some c \<and> c_start c = home \<and> c_end c = (plat, plng) \<and>
     c_control c =
       ((fst home + plat) / 2 +
          min (sqrt ((plat - fst home)\<^sup>2 + (plng - snd home)\<^sup>2) * 0.35) 40,
        (snd home + plng) / 2)"
  using assms by (simp add: fanOutCurve_def Let_def power2_eq_square)

text \<open>
  C3, as the code has it. In fan-out mode the control point of the curve to a partner is
  the
  midpoint of home and destination shifted north by
  \<open>lift = min (sqrt (dLat\<^sup>2 + dLng\<^sup>2) * 0.35) 40\<close>. In the free-form route builder it is
  the midpoint shifted north by the constant 15. In both modes the control point is
  determined by the two end points and the lift never exceeds 40.
\<close>

theorem curve_control_points:
  "(p_lat p = Some plat \<and> p_lng p = Some plng \<longrightarrow>
      (\<exists>c. fanOutCurve home p = Some c \<and> c_start c = home \<and> c_end c = (plat, plng) \<and>
           c_control c =
             ((fst home + plat) / 2 +
                min (sqrt ((plat - fst home)\<^sup>2 + (plng - snd home)\<^sup>2) * 0.35) 40,
              (snd home + plng) / 2) \<and>
           fst (c_control c) - (fst home + plat) / 2 \<le> 40))
   \<and> (p_lat p = p_lat p' \<and> p_lng p = p_lng p' \<longrightarrow>
        map_option c_control (fanOutCurve home p) = map_option c_control (fanOutCurve home p'))
   \<and> c_control (drawTradeCurve start end) =
        ((fst start + fst end) / 2 + 15, (snd start + snd end) / 2)
   \<and> fst (c_control (drawTradeCurve start end)) - (fst start + fst end) / 2 \<le> 40"
proof (intro conjI impI)
  assume a: "p_lat p = Some plat \<and> p_lng p = Some plng"
  then obtain c where c: "fanOutCurve home p = Some c" "c_start c = home" "c_end c = (plat, plng)"
     "c_control c =
       ((fst home + plat) / 2 +
          min (sqrt ((plat - fst home)\<^sup>2 + (plng - snd home)\<^sup>2) * 0.35) 40,
        (snd home + plng) / 2)"
    using fanOutCurve_control[of p plat plng home] by blast
  then have "fst (c_control c) - (fst home + plat) / 2 \<le> 40" by simp
  with c show "\<exists>c. fanOutCurve home p = Some c \<and> c_start c = home \<and> c_end c = (plat, plng) \<and>
           c_control c =
             ((fst home + plat) / 2 +
                min (sqrt ((plat - fst home)\<^sup>2 + (plng - snd home)\<^sup>2) * 0.35) 40,
              (snd home + plng) / 2) \<and>
           fst (c_control c) - (fst home + plat) / 2 \<le> 40"
    by blast
next
  assume "p_lat p = p_lat p' \<and> p_lng p = p_lng p'"
  then show "map_option c_control (fanOutCurve home p) = map_option c_control (fanOutCurve home p')"
    by (simp add: fanOutCurve_def Let_def split: option.splits)
next
  show "c_control (drawTradeCurve start end) =
        ((fst start + fst end) / 2 + 15, (snd start + snd end) / 2)"
    by (simp add: drawTradeCurve_def Let_def)
  show "fst (c_control (drawTradeCurve start end)) - (fst start + fst end) / 2 \<le> 40"
    by (simp add: drawTradeCurve_def Let_def)
qed

theorem curve_control_points_witness:
  "p_lat pZeta = Some 6 \<and> p_lng pZeta = Some 8
   \<and> map_option c_control (fanOutCurve (0, 0) pZeta) = Some (13 / 2, 4)
   \<and> p_lat pEta = Some 90 \<and> p_lng pEta = Some 120
   \<and> map_option c_control (fanOutCurve (0, 0) pEta) = Some (85, 60)
   \<and> c_control (drawTradeCurve (0, 0) (6, 8)) = (18, 4)"
proof -
  have z: "p_lat pZeta = Some 6 \<and> p_lng pZeta = Some 8" by (simp add: pZeta_def)
  have e: "p_lat pEta = Some 90 \<and> p_lng pEta = Some 120" by (simp add: pEta_def)
  show ?thesis
    using curve_control_points [of pZeta 6 8 "(0, 0)" pZeta "(0, 0)" "(6, 8)"]
      curve_control_points [of pEta 90 120 "(0, 0)" pEta "(0, 0)" "(6, 8)"] z e
    by (auto simp: sqrt_100 sqrt_22500)
qed

text \<open>
  C3 in its original wording fails in the route builder: from \<open>(0, 0)\<close> to
  \<open>(6, 8)\<close> the distance is
  10 and the scaled lift would be 3.5, but the curve drawn is lifted by 15.
\<close>

theorem route_builder_lift_counterexample:
  "c_control (drawTradeCurve (0, 0) (6, 8)) = (18, 4)
   \<and> ((0 + 6) / 2 + min (sqrt ((6 - 0)\<^sup>2 + (8 - 0)\<^sup>2) * 0.35) 40, (0 + 8) / 2) = (13 / 2, 4 :: real)
   \<and> c_control (drawTradeCurve (0, 0) (6, 8)) \<noteq>
       ((0 + 6) / 2 + min (sqrt ((6 - 0)\<^sup>2 + (8 - 0)\<^sup>2) * 0.35) 40, (0 + 8) / 2)"
  by (simp add: drawTradeCurve_def Let_def sqrt_100)

section \<open>Verification: home coordinate\<close>











section \<open>Verification: one render pass\<close>






section \<open>Verification: the component's life cycle\<close>

lemma rerender_without_data:
  "geoDataRef s = None \<Longrightarrow> rerender pr newArray s = s\<lparr>latest := pr\<rparr>"
  by (simp add: rerender_def redrawEffect_def Let_def)

lemma rerenders_without_data:
  "geoDataRef s = None \<Longrightarrow>
   geoDataRef (rerenders rs s) = None \<and>
   geoLayersRef (rerenders rs s) = geoLayersRef s \<and>
   curveLayersRef (rerenders rs s) = curveLayersRef s \<and>
   instanceRef (rerenders rs s) = instanceRef s \<and>
   fetchPending (rerenders rs s) = fetchPending s \<and>
   captured (rerenders rs s) = captured s \<and>
   unhandledRejection (rerenders rs s) = unhandledRejection s"
proof (induction rs arbitrary: s)
  case Nil
  then show ?case by simp
next
  case (Cons r rs)
  obtain pr newArray where r: "r = (pr, newArray)" by (cases r)
  have "geoDataRef (s\<lparr>latest := pr\<rparr>) = None" using Cons.prems by simp
  from Cons.IH[OF this] show ?case
    by (simp add: r rerender_without_data[OF Cons.prems])
qed

text \<open>
  C6, as the code has it. When the request for the boundary data or its parsing fails, no
  highlight layer and no curve is ever created, then or on any later change of the
  props: the map shows its base tiles only. The component does not become ready (the
  boundary data stays unset, so later changes of the props draw nothing), and the
  rejection is left unhandled.
\<close>

theorem fetch_failure_outcome:
  "geoLayersRef (rerenders rs (fetchRejected (fst (mount True pr)))) = []
   \<and> curveLayersRef (rerenders rs (fetchRejected (fst (mount True pr)))) = []
   \<and> geoDataRef (rerenders rs (fetchRejected (fst (mount True pr)))) = None
   \<and> \<not> ready (rerenders rs (fetchRejected (fst (mount True pr))))
   \<and> unhandledRejection (rerenders rs (fetchRejected (fst (mount True pr))))"
proof -
  let ?s = "fetchRejected (fst (mount True pr))"
  have s: "geoDataRef ?s = None" "geoLayersRef ?s = []" "curveLayersRef ?s = []"
    "unhandledRejection ?s"
    by (simp_all add: fetchRejected_def mount_def Let_def)
  from rerenders_without_data[OF s(1), of rs] s show ?thesis
    by (simp add: ready_def)
qed

theorem fetch_failure_outcome_witness:
  "geoLayersRef (rerenders [(twoPartners, True)] (fetchRejected (fst (mount True noPartners)))) = []
   \<and> curveLayersRef (rerenders [(twoPartners, True)] (fetchRejected (fst (mount True noPartners)))) = []
   \<and> \<not> ready (rerenders [(twoPartners, True)] (fetchRejected (fst (mount True noPartners))))
   \<and> unhandledRejection (rerenders [(twoPartners, True)] (fetchRejected (fst (mount True noPartners))))"
  using fetch_failure_outcome [of "[(twoPartners, True)]" noPartners]
  by simp

text \<open>
  C6 in its original wording fails: after a failed request the rejection is unhandled and
  the
  component is not ready.
\<close>

theorem fetch_failure_unhandled_counterexample:
  "unhandledRejection (fetchRejected (fst (mount True noPartners)))
   \<and> \<not> ready (fetchRejected (fst (mount True noPartners)))"
  by (simp add: fetchRejected_def mount_def ready_def Let_def)

lemma updateAt_requests: "requests (updateAt k f pc) = requests pc"
  by (simp add: updateAt_def)

lemma step_requests: "requests (step pc ev) = requests pc + mounts [ev]"
  by (cases ev) (simp_all add: updateAt_requests mount_def Let_def)

lemma run_requests: "requests (run evs pc) = requests pc + mounts evs"
proof (induction evs arbitrary: pc)
  case Nil
  then show ?case by (simp add: run_def)
next
  case (Cons ev evs)
  have "run (ev # evs) pc = run evs (step pc ev)" by (simp add: run_def)
  moreover have "mounts (ev # evs) = mounts [ev] + mounts evs" by (cases ev) simp_all
  ultimately show ?case by (simp add: Cons.IH step_requests)
qed

lemma rerender_geoDataRef: "geoDataRef (rerender pr newArray s) = geoDataRef s"
  by (simp add: rerender_def redrawEffect_def renderWith_def Let_def
      split: option.splits prod.splits)

text \<open>
  C7, as the code has it. Every mount of a component that finds the map library issues one
  request for the boundary dataset of its own: the number of requests of a page is the
  number of such mounts, and no other event issues one. The data that arrives is kept
  in the component's own ref, is not changed by re-renders, and is what every later
  redraw of that component uses, synchronously.
\<close>

theorem boundary_fetch_per_mount:
  "requests (run evs pc) = requests pc + mounts evs
   \<and> snd (mount True pr) = 1
   \<and> (fetchPending s \<longrightarrow> geoDataRef (fetchResolved data s) = Some data)
   \<and> geoDataRef (rerender pr newArray s) = geoDataRef s
   \<and> (geoDataRef s = Some data \<and> instanceRef s \<longrightarrow>
        redrawEffect s = renderWith (latest s) data s)"
  by (simp add: run_requests rerender_geoDataRef)
    (simp add: mount_def fetchResolved_def renderWith_def redrawEffect_def Let_def
      split: prod.splits)

theorem boundary_fetch_per_mount_witness:
  "requests (run [Mount True noPartners, FetchResolved 0 world, Rerender 0 twoPartners True,
                  Mount True twoPartners, Mount False noPartners] initialPage) = 2
   \<and> fetchPending (fst (mount True noPartners))
   \<and> geoDataRef (fetchResolved world (fst (mount True noPartners))) = Some world"
  using boundary_fetch_per_mount
    [of "[Mount True noPartners, FetchResolved 0 world, Rerender 0 twoPartners True,
          Mount True twoPartners, Mount False noPartners]" initialPage noPartners
        "fst (mount True noPartners)" world True]
  by (simp add: initialPage_def mount_def)

text \<open>
  C7 in its original wording fails: two mounts issue two requests.
\<close>

theorem second_mount_fetches_again_counterexample:
  "requests (run [Mount True noPartners, Mount True noPartners] initialPage) = 2"
  by (simp add: run_def initialPage_def mount_def)


section \<open>Verification: the route builder\<close>

lemma processCountry_accepted:
  assumes "trim (query s) \<noteq> []" "tm_geoDataRef s = Some features" "tm_instanceRef s"
    and "findByNameFrom (query s) features 0 = Inr (Some i)"
    and "boundsCenter (features ! i) = Inr center"
  shows "exporterRef s = None \<Longrightarrow>
           processCountry True s =
             (s\<lparr>exporterRef := Some center, btnLabel := ''Add Destination'', btnBg := ''#10B981'',
                tm_highlights := tm_highlights s @
                  [(i, selectedStyle\<lparr>fillOpacity := 0.7, fillColor := ''#1E3A8A''\<rparr>)],
                query := []\<rparr>, OriginSet)"
    and "exporterRef s = Some exporter \<Longrightarrow>
           processCountry True s =
             (s\<lparr>tm_highlights := tm_highlights s @ [(i, selectedStyle)],
                tm_curves := tm_curves s @ [drawTradeCurve exporter center],
                query := []\<rparr>, CurveDrawn)"
  using assms by (simp_all add: processCountry_def Let_def)

lemma processCountry_keeps_exporter:
  "exporterRef s = Some exporter \<Longrightarrow> exporterRef (fst (processCountry hasL s)) = Some exporter"
  by (simp add: processCountry_def Let_def split: sum.splits option.splits)

text \<open>
  C8, as the code has it. In the free-form route builder the first accepted country input
  becomes
  the origin, and the button changes to \<open>Add Destination\<close> on a green background. Every
  later accepted input is a destination: it draws one curve from that same origin and
  leaves the origin and the button as they are. No input resets the origin, so all
  curves start from the first accepted country.
\<close>

theorem route_builder_sequence:
  "(trim txt \<noteq> [] \<and> tm_geoDataRef s = Some features \<and> tm_instanceRef s \<and>
    findByNameFrom txt features 0 = Inr (Some i) \<and> boundsCenter (features ! i) = Inr center \<longrightarrow>
      (exporterRef s = None \<longrightarrow>
         snd (submit True txt s) = OriginSet \<and>
         exporterRef (fst (submit True txt s)) = Some center \<and>
         btnLabel (fst (submit True txt s)) = ''Add Destination'' \<and>
         btnBg (fst (submit True txt s)) = ''#10B981'' \<and>
         tm_curves (fst (submit True txt s)) = tm_curves s) \<and>
      (exporterRef s = Some exporter \<longrightarrow>
         snd (submit True txt s) = CurveDrawn \<and>
         tm_curves (fst (submit True txt s)) = tm_curves s @ [drawTradeCurve exporter center] \<and>
         btnLabel (fst (submit True txt s)) = btnLabel s \<and>
         btnBg (fst (submit True txt s)) = btnBg s))
   \<and> (exporterRef s = Some exporter \<longrightarrow>
        exporterRef (fst (submit hasL txt' s)) = Some exporter)"
proof -
  let ?s = "s\<lparr>query := txt\<rparr>"
  have acc: "(exporterRef s = None \<longrightarrow>
         snd (submit True txt s) = OriginSet \<and>
         exporterRef (fst (submit True txt s)) = Some center \<and>
         btnLabel (fst (submit True txt s)) = ''Add Destination'' \<and>
         btnBg (fst (submit True txt s)) = ''#10B981'' \<and>
         tm_curves (fst (submit True txt s)) = tm_curves s) \<and>
      (exporterRef s = Some exporter \<longrightarrow>
         snd (submit True txt s) = CurveDrawn \<and>
         tm_curves (fst (submit True txt s)) = tm_curves s @ [drawTradeCurve exporter center] \<and>
         btnLabel (fst (submit True txt s)) = btnLabel s \<and>
         btnBg (fst (submit True txt s)) = btnBg s)"
    if a: "trim txt \<noteq> [] \<and> tm_geoDataRef s = Some features \<and> tm_instanceRef s \<and>
    findByNameFrom txt features 0 = Inr (Some i) \<and> boundsCenter (features ! i) = Inr center"
  proof -
    have 1: "trim (query ?s) \<noteq> []" "tm_geoDataRef ?s = Some features" "tm_instanceRef ?s"
      "findByNameFrom (query ?s) features 0 = Inr (Some i)"
      "boundsCenter (features ! i) = Inr center"
      using a by simp_all
    show ?thesis
      using processCountry_accepted(1)[OF 1, of] processCountry_accepted(2)[OF 1, of exporter]
      by (auto simp: submit_def)
  qed
  have keep: "exporterRef (fst (submit hasL txt' s)) = Some exporter"
    if "exporterRef s = Some exporter"
    using that processCountry_keeps_exporter[of "s\<lparr>query := txt'\<rparr>" exporter hasL]
    by (simp add: submit_def)
  show ?thesis using acc keep by blast
qed

lemmas name_defs2 = toLowerCase_def lowerChar_def orEmpty_def

lemma trim_examples: "trim ''square'' \<noteq> []" "trim ''ISLANDS'' \<noteq> []"
  by (simp_all add: trim_def isSpace_def)

lemma findByName_examples:
  "findByNameFrom ''square'' world 0 = Inr (Some 0)"
  "findByNameFrom ''ISLANDS'' world 0 = Inr (Some 1)"
  by (simp_all add: world_def squareF_def islandsF_def bareF_def name_defs2)

lemma boundsCenter_examples:
  "boundsCenter (world ! 0) = Inr (2, 2)"
  "boundsCenter (world ! 1) = Inr (2, 17)"
  "boundsCenter (world ! Suc 0) = Inr (2, 17)"
  by (simp_all add: world_def squareF_def islandsF_def boundsCenter_def)

theorem route_builder_sequence_witness:
  "trim ''square'' \<noteq> [] \<and> findByNameFrom ''square'' world 0 = Inr (Some 0)
   \<and> boundsCenter (world ! 0) = Inr (2, 2)
   \<and> exporterRef (tradeMapReady world) = None
   \<and> snd (submit True ''square'' (tradeMapReady world)) = OriginSet
   \<and> exporterRef (fst (submit True ''square'' (tradeMapReady world))) = Some (2, 2)
   \<and> btnLabel (fst (submit True ''square'' (tradeMapReady world))) = ''Add Destination''
   \<and> trim ''ISLANDS'' \<noteq> [] \<and> findByNameFrom ''ISLANDS'' world 0 = Inr (Some 1)
   \<and> boundsCenter (world ! 1) = Inr (2, 17)
   \<and> exporterRef ((tradeMapReady world)\<lparr>exporterRef := Some (2, 2)\<rparr>) = Some (2, 2)
   \<and> snd (submit True ''ISLANDS'' ((tradeMapReady world)\<lparr>exporterRef := Some (2, 2)\<rparr>)) = CurveDrawn
   \<and> tm_curves (fst (submit True ''ISLANDS'' ((tradeMapReady world)\<lparr>exporterRef := Some (2, 2)\<rparr>))) =
       [drawTradeCurve (2, 2) (2, 17)]
   \<and> exporterRef (fst (submit True ''ISLANDS'' ((tradeMapReady world)\<lparr>exporterRef := Some (2, 2)\<rparr>))) =
       Some (2, 2)"
proof -
  have r: "tm_geoDataRef (tradeMapReady world) = Some world" "tm_instanceRef (tradeMapReady world)"
    "exporterRef (tradeMapReady world) = None" "tm_curves (tradeMapReady world) = []"
    by (simp_all add: tradeMapReady_def)
  show ?thesis
    using route_builder_sequence
        [of "''square''" "tradeMapReady world" world 0 "(2, 2)" "(2, 2)" True "''ISLANDS''"]
      route_builder_sequence
        [of "''ISLANDS''" "(tradeMapReady world)\<lparr>exporterRef := Some (2, 2)\<rparr>" world 1 "(2, 17)"
            "(2, 2)" True "''ISLANDS''"]
      r trim_examples findByName_examples boundsCenter_examples
    by simp
qed

lemma submit_origin_example:
  "fst (submit True ''square'' (tradeMapReady world)) =
     (tradeMapReady world)\<lparr>exporterRef := Some (2, 2), btnLabel := ''Add Destination'',
        btnBg := ''#10B981'',
        tm_highlights := [(0, selectedStyle\<lparr>fillOpacity := 0.7, fillColor := ''#1E3A8A''\<rparr>)]\<rparr>"
  by (simp add: submit_def processCountry_def tradeMapReady_def trim_examples
      findByName_examples boundsCenter_examples Let_def)

lemma submit_destination_example:
  "tm_geoDataRef s = Some world \<Longrightarrow> tm_instanceRef s \<Longrightarrow> exporterRef s = Some (2, 2) \<Longrightarrow>
   fst (submit True ''ISLANDS'' s) =
     s\<lparr>tm_highlights := tm_highlights s @ [(1, selectedStyle)],
       tm_curves := tm_curves s @ [drawTradeCurve (2, 2) (2, 17)],
       query := []\<rparr>"
  by (simp add: submit_def processCountry_def trim_examples findByName_examples
      boundsCenter_examples Let_def)

text \<open>
  C8 in its original wording fails: after origin and destination, a third accepted input
  does not
  start a new pair; it draws a second curve from the first origin.
\<close>

theorem route_builder_no_reset_counterexample:
  "exporterRef (submitAll True [''square'', ''ISLANDS'', ''ISLANDS''] (tradeMapReady world)) =
     Some (2, 2)
   \<and> exporterRef (submitAll True [''square'', ''ISLANDS'', ''ISLANDS''] (tradeMapReady world)) \<noteq>
       Some (2, 17)
   \<and> tm_curves (submitAll True [''square'', ''ISLANDS'', ''ISLANDS''] (tradeMapReady world)) =
       [drawTradeCurve (2, 2) (2, 17), drawTradeCurve (2, 2) (2, 17)]
   \<and> btnLabel (submitAll True [''square'', ''ISLANDS'', ''ISLANDS''] (tradeMapReady world)) =
       ''Add Destination''"
proof -
  let ?s1 = "fst (submit True ''square'' (tradeMapReady world))"
  let ?s2 = "fst (submit True ''ISLANDS'' ?s1)"
  let ?s3 = "fst (submit True ''ISLANDS'' ?s2)"
  have s1: "tm_geoDataRef ?s1 = Some world" "tm_instanceRef ?s1" "exporterRef ?s1 = Some (2, 2)"
    "tm_curves ?s1 = []" "btnLabel ?s1 = ''Add Destination''"
    by (simp_all add: submit_origin_example) (simp_all add: tradeMapReady_def)
  have s2: "tm_geoDataRef ?s2 = Some world" "tm_instanceRef ?s2" "exporterRef ?s2 = Some (2, 2)"
    "tm_curves ?s2 = [drawTradeCurve (2, 2) (2, 17)]" "btnLabel ?s2 = ''Add Destination''"
    by (simp_all add: submit_destination_example[OF s1(1,2,3)] s1)
  have s3: "exporterRef ?s3 = Some (2, 2)"
    "tm_curves ?s3 = [drawTradeCurve (2, 2) (2, 17), drawTradeCurve (2, 2) (2, 17)]"
    "btnLabel ?s3 = ''Add Destination''"
    by (simp_all add: submit_destination_example[OF s2(1,2,3)] s2)
  have "submitAll True [''square'', ''ISLANDS'', ''ISLANDS''] (tradeMapReady world) = ?s3"
    by simp
  with s3 show ?thesis by simp
qed

section \<open>Verification: props changed before the data arrived\<close>

lemma stalePage_component:
  "components stalePage =
     [\<lparr>instanceRef = True, geoDataRef = Some world, geoLayersRef = [], curveLayersRef = [],
       latest = twoPartners, captured = noPartners, fetchPending = False,
       unhandledRejection = False\<rparr>]"
  by (simp add: stalePage_def run_def initialPage_def mount_def updateAt_def rerender_def
      redrawEffect_def fetchResolved_def renderWith_def renderAll_def Let_def)
    (simp add: noPartners_def twoPartners_def)

text \<open>
  C9. A component is mounted with no partner, re-rendered with two partners while the
  request is pending, and then receives the data. The re-render draws nothing (the data
  is not there), and the pass run on arrival uses the partner list of the first render:
  it draws nothing, although the latest props hold two partners, for which a pass gives
  two country layers and two curves.
\<close>

theorem stale_partners_after_load:
  "latest (components stalePage ! 0) = twoPartners
   \<and> partners twoPartners = [pAlpha, pGamma]
   \<and> geoDataRef (components stalePage ! 0) = Some world
   \<and> geoLayersRef (components stalePage ! 0) = []
   \<and> curveLayersRef (components stalePage ! 0) = []
   \<and> length (fst (renderAll (homeLat twoPartners) (homeLng twoPartners) (homeCountry twoPartners)
               world (partners twoPartners))) = 2
   \<and> length (snd (renderAll (homeLat twoPartners) (homeLng twoPartners) (homeCountry twoPartners)
               world (partners twoPartners))) = 2"
  by (simp add: stalePage_component)
    (simp add: twoPartners_def renderAll_def Let_def fanOutCurve_def
      pAlpha_def pGamma_def)

end
